theory Spec2Isabelle
  imports Complex_Main
begin

section \<open>JavaScript values\<close>

text \<open>
  The values that \<^verbatim>\<open>JSON.parse\<close> and the JSON body parser hand to the code, plus
  \<^verbatim>\<open>undefined\<close> for an absent property. A number is a real: the code only tests
  numbers for truthiness, and a parsed JSON number is never NaN.
\<close>

datatype jsval =
    JUndefined
  | JNull
  | JBool bool
  | JNum real
  | JStr string
  | JArr "jsval list"
  | JObj "(string \<times> jsval) list"

text \<open>The truthiness test behind \<^verbatim>\<open>!x\<close>.\<close>

fun truthy :: "jsval \<Rightarrow> bool" where
  "truthy JUndefined = False"
| "truthy JNull = False"
| "truthy (JBool b) = b"
| "truthy (JNum n) = (n \<noteq> 0)"
| "truthy (JStr s) = (s \<noteq> [])"
| "truthy (JArr xs) = True"
| "truthy (JObj kvs) = True"

text \<open>
  Reading a property throws a TypeError on \<^verbatim>\<open>null\<close> and \<^verbatim>\<open>undefined\<close>, and
  nowhere else.
\<close>

fun nullish :: "jsval \<Rightarrow> bool" where
  "nullish JUndefined = True"
| "nullish JNull = True"
| "nullish v = False"

text \<open>
  \<^verbatim>\<open>v.k\<close> for a value that is not nullish and for the four property names this code reads
  (promptText, requestedModel, enhance, promptId): an object yields the stored value
  or \<^verbatim>\<open>undefined\<close>; booleans, numbers, strings and arrays have no such property.
\<close>

fun jsget :: "jsval \<Rightarrow> string \<Rightarrow> jsval" where
  "jsget (JObj kvs) k = (case map_of kvs k of None \<Rightarrow> JUndefined | Some v \<Rightarrow> v)"
| "jsget v k = JUndefined"

section \<open>Constants and effects shared by both relay modules\<close>

definition QUEUE_NAME :: string where
  "QUEUE_NAME = ''prompt_tasks_queue''"

definition RECONNECT_DELAY_MS :: nat where
  "RECONNECT_DELAY_MS = 5000"

datatype level = LInfo | LWarn | LError

record consume_message =
  content :: string
  delivery_tag :: nat

text \<open>
  Every call the two modules make on a collaborator (logger, amqplib, the prompt service,
  the timer, the process), in the order made. Connections and channels are named by
  numbers. \<open>AssertQueue ch q durable\<close>, \<open>SendToQueue ch q payload persistent\<close>,
  \<open>Consume ch q noAck\<close>, \<open>Nack ch msg allUpTo requeue\<close>.
\<close>

datatype effect =
    Log level string
  | AmqpConnect
  | CreateChannel nat
  | AssertQueue nat string bool
  | SendToQueue nat string string bool
  | Consume nat string bool
  | ProcessPrompt jsval jsval jsval jsval
  | Ack nat consume_message
  | Nack nat consume_message bool bool
  | ChannelClose nat
  | ConnectionClose nat
  | SetTimeout nat
  | ProcessExit nat

fun is_settlement :: "effect \<Rightarrow> bool" where
  "is_settlement (Ack ch m) = True"
| "is_settlement (Nack ch m a r) = True"
| "is_settlement e = False"

fun is_invocation :: "effect \<Rightarrow> bool" where
  "is_invocation (ProcessPrompt a b c d) = True"
| "is_invocation e = False"

text \<open>The calls made on anything but the logger.\<close>

fun is_log :: "effect \<Rightarrow> bool" where
  "is_log (Log l s) = True"
| "is_log e = False"

definition settlements :: "effect list \<Rightarrow> effect list" where
  "settlements es = filter is_settlement es"

definition invocations :: "effect list \<Rightarrow> effect list" where
  "invocations es = filter is_invocation es"

fun is_publish :: "effect \<Rightarrow> bool" where
  "is_publish (SendToQueue ch q payload persistent) = True"
| "is_publish e = False"

definition publishes :: "effect list \<Rightarrow> effect list" where
  "publishes es = filter is_publish es"

definition calls_made :: "effect list \<Rightarrow> effect list" where
  "calls_made es = filter (\<lambda>e. \<not> is_log e) es"

text \<open>
  An in-flight call of an async connect function is a pair of its number and the
  \<^verbatim>\<open>await\<close> it is suspended at.
\<close>

definition set_pc :: "nat \<Rightarrow> 'pc \<Rightarrow> (nat \<times> 'pc) list \<Rightarrow> (nat \<times> 'pc) list" where
  "set_pc i pc atts = map (\<lambda>(j, q). if j = i then (j, pc) else (j, q)) atts"

definition settle :: "nat \<Rightarrow> (nat \<times> 'pc) list \<Rightarrow> (nat \<times> 'pc) list" where
  "settle i atts = filter (\<lambda>(j, q). j \<noteq> i) atts"

section \<open>The consumer: worker.ts\<close>

subsection \<open>connectAndConsume and the handlers it registers\<close>

datatype w_pc =
    WAwaitConnect
  | WAwaitCreateChannel
  | WAwaitAssertQueue
  | WAwaitChannelClose
  | WAwaitConnectionClose

text \<open>
  \<open>connection\<close> and \<open>channel\<close> are the two variables of startWorker's closure;
  \<open>w_attempts\<close> the calls of connectAndConsume that have not returned; \<open>w_timers\<close>
  the pending \<^verbatim>\<open>setTimeout(connectAndConsume, RECONNECT_DELAY_MS)\<close>;
  \<open>conn_handlers\<close> and \<open>chan_handlers\<close> the live connections and channels on which
  the error and close handlers were registered.
\<close>

record worker =
  connection :: "nat option"
  channel :: "nat option"
  w_attempts :: "(nat \<times> w_pc) list"
  w_next :: nat
  w_timers :: nat
  conn_handlers :: "nat list"
  chan_handlers :: "nat list"

definition worker_init :: worker where
  "worker_init = \<lparr>connection = None, channel = None, w_attempts = [], w_next = 0,
     w_timers = 0, conn_handlers = [], chan_handlers = []\<rparr>"

text \<open>connectAndConsume up to its first await (lines 42 to 44).\<close>

definition connectAndConsume :: "worker \<Rightarrow> worker \<times> effect list" where
  "connectAndConsume w =
     (w\<lparr>w_attempts := w_attempts w @ [(w_next w, WAwaitConnect)], w_next := Suc (w_next w)\<rparr>,
      [Log LInfo ''Connecting to RabbitMQ'', AmqpConnect])"

text \<open>The catch block (lines 120 to 131), cut at its two awaits.\<close>

definition w_retry :: "nat \<Rightarrow> worker \<Rightarrow> worker \<times> effect list" where
  "w_retry i w =
     (w\<lparr>w_attempts := settle i (w_attempts w), w_timers := Suc (w_timers w)\<rparr>,
      [SetTimeout RECONNECT_DELAY_MS])"

definition w_catch_connection :: "nat \<Rightarrow> worker \<Rightarrow> worker \<times> effect list" where
  "w_catch_connection i w =
     (case connection w of
        None \<Rightarrow> w_retry i w
      | Some c \<Rightarrow>
          (w\<lparr>w_attempts := set_pc i WAwaitConnectionClose (w_attempts w)\<rparr>, [ConnectionClose c]))"

definition w_catch :: "nat \<Rightarrow> worker \<Rightarrow> worker \<times> effect list" where
  "w_catch i w =
     (case (case channel w of
              None \<Rightarrow> w_catch_connection i w
            | Some ch \<Rightarrow>
                (w\<lparr>w_attempts := set_pc i WAwaitChannelClose (w_attempts w)\<rparr>, [ChannelClose ch]))
      of (w', es) \<Rightarrow> (w', Log LError ''Failed to connect to RabbitMQ or setup consumer'' # es))"

text \<open>
  What can happen to the worker between two of its own steps: a timer fires, an awaited
  promise of call \<open>i\<close> settles, or a connection or channel emits an event.
\<close>

datatype w_event =
    WTimerFires
  | WConnectResolves nat nat
  | WConnectRejects nat
  | WCreateChannelResolves nat nat
  | WCreateChannelRejects nat
  | WAssertQueueResolves nat
  | WAssertQueueRejects nat
  | WCloseSettles nat bool
  | WConnectionError nat
  | WConnectionClose nat
  | WChannelError nat
  | WChannelClose nat

text \<open>
  One event. An event that nothing waits for (no such call at that await, no handler on
  that connection or channel, no pending timer) changes nothing. A closed connection or
  channel emits nothing further, so its number leaves the handler list.
\<close>

fun w_step :: "w_event \<Rightarrow> worker \<Rightarrow> worker \<times> effect list" where
  "w_step WTimerFires w =
     (if w_timers w = 0 then (w, [])
      else connectAndConsume (w\<lparr>w_timers := w_timers w - 1\<rparr>))"
| "w_step (WConnectResolves i c) w =
     (if map_of (w_attempts w) i = Some WAwaitConnect
      then (w\<lparr>connection := Some c, conn_handlers := c # conn_handlers w,
               w_attempts := set_pc i WAwaitCreateChannel (w_attempts w)\<rparr>,
            [Log LInfo ''Successfully connected to RabbitMQ.'', CreateChannel c])
      else (w, []))"
| "w_step (WConnectRejects i) w =
     (if map_of (w_attempts w) i = Some WAwaitConnect then w_catch i w else (w, []))"
| "w_step (WCreateChannelResolves i ch) w =
     (if map_of (w_attempts w) i = Some WAwaitCreateChannel
      then (w\<lparr>channel := Some ch, chan_handlers := ch # chan_handlers w,
               w_attempts := set_pc i WAwaitAssertQueue (w_attempts w)\<rparr>,
            [Log LInfo ''RabbitMQ channel created.'', AssertQueue ch QUEUE_NAME True])
      else (w, []))"
| "w_step (WCreateChannelRejects i) w =
     (if map_of (w_attempts w) i = Some WAwaitCreateChannel then w_catch i w else (w, []))"
| "w_step (WAssertQueueResolves i) w =
     (if map_of (w_attempts w) i = Some WAwaitAssertQueue
      then (case channel w of
              None \<Rightarrow>
                (case w_catch i w of (w', es) \<Rightarrow>
                   (w', [Log LInfo ''Queue asserted successfully (durable).'',
                         Log LInfo ''Worker is waiting for messages''] @ es))
            | Some ch \<Rightarrow>
                (w\<lparr>w_attempts := settle i (w_attempts w)\<rparr>,
                 [Log LInfo ''Queue asserted successfully (durable).'',
                  Log LInfo ''Worker is waiting for messages'',
                  Consume ch QUEUE_NAME False]))
      else (w, []))"
| "w_step (WAssertQueueRejects i) w =
     (if map_of (w_attempts w) i = Some WAwaitAssertQueue then w_catch i w else (w, []))"
| "w_step (WCloseSettles i ok) w =
     (if map_of (w_attempts w) i = Some WAwaitChannelClose
      then (case w_catch_connection i (w\<lparr>channel := None\<rparr>) of (w', es) \<Rightarrow>
              (w', (if ok then [] else [Log LError ''Error closing channel during error handling:'']) @ es))
      else if map_of (w_attempts w) i = Some WAwaitConnectionClose
      then (case w_retry i (w\<lparr>connection := None\<rparr>) of (w', es) \<Rightarrow>
              (w', (if ok then [] else [Log LError ''Error closing connection during error handling:'']) @ es))
      else (w, []))"
| "w_step (WConnectionError c) w =
     (if c \<in> set (conn_handlers w) then (w, [Log LError ''RabbitMQ connection error:''])
      else (w, []))"
| "w_step (WConnectionClose c) w =
     (if c \<in> set (conn_handlers w)
      then (w\<lparr>connection := None, channel := None, w_timers := Suc (w_timers w),
               conn_handlers := removeAll c (conn_handlers w)\<rparr>,
            [Log LWarn ''RabbitMQ connection closed. Attempting to reconnect...'',
             SetTimeout RECONNECT_DELAY_MS])
      else (w, []))"
| "w_step (WChannelError ch) w =
     (if ch \<in> set (chan_handlers w) then (w, [Log LError ''RabbitMQ channel error:''])
      else (w, []))"
| "w_step (WChannelClose ch) w =
     (if ch \<in> set (chan_handlers w)
      then (w\<lparr>channel := None, chan_handlers := removeAll ch (chan_handlers w)\<rparr>,
            [Log LInfo ''RabbitMQ channel closed.''])
      else (w, []))"

fun w_run :: "w_event list \<Rightarrow> worker \<Rightarrow> worker \<times> effect list" where
  "w_run [] w = (w, [])"
| "w_run (e # es) w =
     (case w_step e w of (w1, a) \<Rightarrow> (case w_run es w1 of (w2, b) \<Rightarrow> (w2, a @ b)))"

subsection \<open>startWorker and the module's startup guard\<close>

text \<open>
  The two arguments are \<^verbatim>\<open>defaultOpenAiLlmProvider\<close> and \<^verbatim>\<open>defaultPromptService\<close>, each
  an object or null. startWorker (lines 24 to 135) runs up to the first await of
  connectAndConsume; connectAndConsume catches every failure itself, so the promise of
  startWorker never rejects and the rejection handler of line 139, the only place that
  calls \<^verbatim>\<open>process.exit\<close>, has nothing to run on.
\<close>

definition startWorker :: "'p option \<Rightarrow> 's option \<Rightarrow> worker \<times> effect list" where
  "startWorker provider service =
     (if provider = None
      then (worker_init,
            [Log LInfo ''Attempting to start Prompt Agent Worker...'',
             Log LWarn ''OpenAI LLM Provider is not available (likely missing OPENAI_API_KEY). Prompt Agent Worker will not start.''])
      else if service = None
      then (worker_init,
            [Log LInfo ''Attempting to start Prompt Agent Worker...'',
             Log LWarn ''DefaultPromptService is not available. Prompt Agent Worker will not start.''])
      else (case connectAndConsume worker_init of (w, es) \<Rightarrow>
              (w, Log LInfo ''Attempting to start Prompt Agent Worker...'' # es)))"

text \<open>The module body (lines 138 to 151).\<close>

definition worker_module :: "'p option \<Rightarrow> 's option \<Rightarrow> worker \<times> effect list" where
  "worker_module provider service =
     (if provider \<noteq> None \<and> service \<noteq> None then startWorker provider service
      else (worker_init,
            [Log LWarn ''Prompt Agent Worker will not start. LlmProvider (OpenAI) or PromptService is not available.'']))"

subsection \<open>The consume callback\<close>

text \<open>
  What the callback (lines 79 to 118) is given by its surroundings: the outcome of
  \<^verbatim>\<open>JSON.parse\<close> on a text (\<open>None\<close> for a SyntaxError), the outcome of the prompt
  service on its four arguments (\<open>Inl\<close> a rejection, \<open>Inr\<close> the result), the events the
  worker handles while the callback is suspended at that await, and whether a call of
  ack or nack on a channel throws. A call of the prompt service that never settles
  leaves the callback suspended for good, with the message unsettled; the properties
  below speak of calls that resolve or reject.
\<close>

record callback_env =
  JSON_parse :: "string \<Rightarrow> jsval option"
  processPrompt :: "jsval \<Rightarrow> jsval \<Rightarrow> jsval \<Rightarrow> jsval \<Rightarrow> string + string"
  during_processPrompt :: "w_event list"
  ack_throws :: "nat \<Rightarrow> bool"
  nack_throws :: "nat \<Rightarrow> bool"

datatype completion = Returned | Threw

text \<open>
  The catch block (lines 103 to 112), after the effects \<open>sofar\<close> of the try block. An
  exception of the nack made here leaves the callback.
\<close>

definition on_catch ::
  "callback_env \<Rightarrow> worker \<Rightarrow> consume_message \<Rightarrow> effect list \<Rightarrow> worker \<times> effect list \<times> completion" where
  "on_catch env w msg sofar =
     (case channel w of
        None \<Rightarrow>
          (w, sofar @ [Log LError ''Error processing message or in prompt service:'',
                       Log LWarn ''Message rejected (nack) due to processing error.''], Returned)
      | Some ch \<Rightarrow>
          if nack_throws env ch
          then (w, sofar @ [Log LError ''Error processing message or in prompt service:'',
                            Nack ch msg False False], Threw)
          else (w, sofar @ [Log LError ''Error processing message or in prompt service:'',
                            Nack ch msg False False,
                            Log LWarn ''Message rejected (nack) due to processing error.''], Returned))"

text \<open>
  The state of the worker when the await of the prompt service resumes. The effects of
  the handlers that ran meanwhile are theirs, not the callback's.
\<close>

definition after_await :: "callback_env \<Rightarrow> worker \<Rightarrow> worker" where
  "after_await env w = fst (w_run (during_processPrompt env) w)"

text \<open>
  Lines 87 to 91: neither promptText nor promptId is truthy. The nack is made inside the
  try block, so an exception of it reaches the catch block.
\<close>

definition reject_invalid ::
  "callback_env \<Rightarrow> worker \<Rightarrow> consume_message \<Rightarrow> worker \<times> effect list \<times> completion" where
  "reject_invalid env w msg =
     (case channel w of
        None \<Rightarrow>
          (w, [Log LInfo ''Received message from queue'',
               Log LError ''Invalid message: promptText or promptId must be provided.''],
           Returned)
      | Some ch \<Rightarrow>
          if nack_throws env ch
          then on_catch env w msg
                 [Log LInfo ''Received message from queue'',
                  Log LError ''Invalid message: promptText or promptId must be provided.'',
                  Nack ch msg False False]
          else (w, [Log LInfo ''Received message from queue'',
                    Log LError ''Invalid message: promptText or promptId must be provided.'',
                    Nack ch msg False False],
                Returned))"

text \<open>
  Lines 93 to 102: the call of the prompt service, the await, and the ack. \<open>channel\<close> is
  read again after the await, in the state the handlers left.
\<close>

definition dispatch ::
  "callback_env \<Rightarrow> worker \<Rightarrow> consume_message \<Rightarrow> jsval \<Rightarrow> worker \<times> effect list \<times> completion" where
  "dispatch env w msg payload =
     (let called =
            [Log LInfo ''Received message from queue'',
             Log LInfo ''Processing message with defaultPromptService...'',
             ProcessPrompt (jsget payload ''promptText'') (jsget payload ''requestedModel'')
               (jsget payload ''enhance'') (jsget payload ''promptId'')];
          w' = after_await env w
      in case processPrompt env (jsget payload ''promptText'') (jsget payload ''requestedModel'')
                (jsget payload ''enhance'') (jsget payload ''promptId'') of
           Inl err \<Rightarrow> on_catch env w' msg called
         | Inr result \<Rightarrow>
             (case channel w' of
                None \<Rightarrow>
                  (w', called @ [Log LInfo ''Prompt processed successfully. Result:'',
                                 Log LInfo ''Message acknowledged.''], Returned)
              | Some ch \<Rightarrow>
                  if ack_throws env ch
                  then on_catch env w' msg
                         (called @ [Log LInfo ''Prompt processed successfully. Result:'',
                                    Ack ch msg])
                  else (w', called @ [Log LInfo ''Prompt processed successfully. Result:'',
                                      Ack ch msg,
                                      Log LInfo ''Message acknowledged.''], Returned)))"

definition consume_callback ::
  "callback_env \<Rightarrow> consume_message option \<Rightarrow> worker \<Rightarrow> worker \<times> effect list \<times> completion" where
  "consume_callback env m w =
     (case m of
        None \<Rightarrow>
          (w, [Log LWarn ''Received null message, consumer might have been cancelled or channel closed.''],
           Returned)
      | Some msg \<Rightarrow>
          (case JSON_parse env (content msg) of
             None \<Rightarrow> on_catch env w msg [Log LInfo ''Received message from queue'']
           | Some payload \<Rightarrow>
               if nullish payload
               then on_catch env w msg [Log LInfo ''Received message from queue'']
               else if \<not> truthy (jsget payload ''promptText'') \<and> \<not> truthy (jsget payload ''promptId'')
               then reject_invalid env w msg
               else dispatch env w msg payload))"

text \<open>The effects of one run of the callback, and how it ended.\<close>

definition callback_effects :: "callback_env \<Rightarrow> consume_message option \<Rightarrow> worker \<Rightarrow> effect list" where
  "callback_effects env m w = fst (snd (consume_callback env m w))"

definition callback_completion :: "callback_env \<Rightarrow> consume_message option \<Rightarrow> worker \<Rightarrow> completion" where
  "callback_completion env m w = snd (snd (consume_callback env m w))"

text \<open>
  The message passes both checks of the callback: its text parses, the parsed value can
  be read, and promptText or promptId is truthy.
\<close>

definition decodes_valid :: "callback_env \<Rightarrow> consume_message \<Rightarrow> bool" where
  "decodes_valid env msg =
     (case JSON_parse env (content msg) of
        None \<Rightarrow> False
      | Some payload \<Rightarrow>
          \<not> nullish payload \<and> (truthy (jsget payload ''promptText'') \<or> truthy (jsget payload ''promptId'')))"

text \<open>
  The value of \<open>channel\<close> at the one place where the callback settles the message: for a
  message that passes both checks, after the await of the prompt service; for any other,
  as the callback found it.
\<close>

definition settle_handle :: "callback_env \<Rightarrow> consume_message \<Rightarrow> worker \<Rightarrow> nat option" where
  "settle_handle env msg w =
     (if decodes_valid env msg then channel (after_await env w) else channel w)"

section \<open>The producer: routes.ts\<close>

subsection \<open>connectToRabbitMQ and the handlers it registers\<close>

text \<open>
  What \<^verbatim>\<open>amqp.connect\<close> resolves with: the connection, and whether its \<^verbatim>\<open>connection\<close>
  property is null, which lines 95 and 99 test.
\<close>

record connection_handle =
  conn_id :: nat
  connection_is_null :: bool

datatype p_pc = PAwaitConnect | PAwaitCreateChannel | PAwaitAssertQueue

text \<open>
  \<open>rabbitConnection\<close> and \<open>rabbitChannel\<close> are the two variables of the module;
  \<open>p_attempts\<close> the calls of connectToRabbitMQ that have not returned; \<open>p_timers\<close> the
  pending \<^verbatim>\<open>setTimeout(connectToRabbitMQ, RECONNECT_DELAY_MS)\<close>; \<open>p_handlers\<close> the
  live connections on which the error and close handlers were registered.
\<close>

record producer =
  rabbitConnection :: "connection_handle option"
  rabbitChannel :: "nat option"
  p_attempts :: "(nat \<times> p_pc) list"
  p_next :: nat
  p_timers :: nat
  p_handlers :: "nat list"

definition producer_init :: producer where
  "producer_init = \<lparr>rabbitConnection = None, rabbitChannel = None, p_attempts = [], p_next = 0,
     p_timers = 0, p_handlers = []\<rparr>"

text \<open>connectToRabbitMQ up to its first await (lines 31 to 33).\<close>

definition connectToRabbitMQ :: "producer \<Rightarrow> producer \<times> effect list" where
  "connectToRabbitMQ p =
     (p\<lparr>p_attempts := p_attempts p @ [(p_next p, PAwaitConnect)], p_next := Suc (p_next p)\<rparr>,
      [Log LInfo ''Attempting to connect to RabbitMQ for API routes...'', AmqpConnect])"

text \<open>The catch block (lines 59 to 65).\<close>

definition p_catch :: "nat \<Rightarrow> producer \<Rightarrow> producer \<times> effect list" where
  "p_catch i p =
     (p\<lparr>rabbitChannel := None, rabbitConnection := None,
        p_attempts := settle i (p_attempts p), p_timers := Suc (p_timers p)\<rparr>,
      [Log LError ''Failed to connect to RabbitMQ for API routes'',
       Log LInfo ''Retrying RabbitMQ connection'',
       SetTimeout RECONNECT_DELAY_MS])"

datatype p_event =
    PTimerFires
  | PConnectResolves nat connection_handle
  | PConnectRejects nat
  | PCreateChannelResolves nat nat
  | PCreateChannelRejects nat
  | PAssertQueueResolves nat
  | PAssertQueueRejects nat
  | PConnectionError nat
  | PConnectionClose nat

text \<open>
  One event, under the same conventions as for the worker: an event that nothing waits
  for changes nothing, and a closed connection leaves the handler list.
\<close>

fun p_step :: "p_event \<Rightarrow> producer \<Rightarrow> producer \<times> effect list" where
  "p_step PTimerFires p =
     (if p_timers p = 0 then (p, [])
      else connectToRabbitMQ (p\<lparr>p_timers := p_timers p - 1\<rparr>))"
| "p_step (PConnectResolves i c) p =
     (if map_of (p_attempts p) i = Some PAwaitConnect
      then (p\<lparr>rabbitConnection := Some c, p_handlers := conn_id c # p_handlers p,
               p_attempts := set_pc i PAwaitCreateChannel (p_attempts p)\<rparr>,
            [Log LInfo ''Successfully connected to RabbitMQ for API routes.'',
             CreateChannel (conn_id c)])
      else (p, []))"
| "p_step (PConnectRejects i) p =
     (if map_of (p_attempts p) i = Some PAwaitConnect then p_catch i p else (p, []))"
| "p_step (PCreateChannelResolves i ch) p =
     (if map_of (p_attempts p) i = Some PAwaitCreateChannel
      then (p\<lparr>rabbitChannel := Some ch,
               p_attempts := set_pc i PAwaitAssertQueue (p_attempts p)\<rparr>,
            [Log LInfo ''RabbitMQ channel created successfully for API routes.'',
             AssertQueue ch QUEUE_NAME True])
      else (p, []))"
| "p_step (PCreateChannelRejects i) p =
     (if map_of (p_attempts p) i = Some PAwaitCreateChannel then p_catch i p else (p, []))"
| "p_step (PAssertQueueResolves i) p =
     (if map_of (p_attempts p) i = Some PAwaitAssertQueue
      then (p\<lparr>p_attempts := settle i (p_attempts p)\<rparr>,
            [Log LInfo ''Queue asserted by API router.''])
      else (p, []))"
| "p_step (PAssertQueueRejects i) p =
     (if map_of (p_attempts p) i = Some PAwaitAssertQueue then p_catch i p else (p, []))"
| "p_step (PConnectionError c) p =
     (if c \<in> set (p_handlers p)
      then (p\<lparr>rabbitChannel := None, rabbitConnection := None\<rparr>,
            [Log LError ''RabbitMQ connection error (API routes):''])
      else (p, []))"
| "p_step (PConnectionClose c) p =
     (if c \<in> set (p_handlers p)
      then (p\<lparr>rabbitChannel := None, rabbitConnection := None, p_timers := Suc (p_timers p),
               p_handlers := removeAll c (p_handlers p)\<rparr>,
            [Log LWarn ''RabbitMQ connection closed (API routes).'',
             SetTimeout RECONNECT_DELAY_MS])
      else (p, []))"

fun p_run :: "p_event list \<Rightarrow> producer \<Rightarrow> producer \<times> effect list" where
  "p_run [] p = (p, [])"
| "p_run (e # es) p =
     (case p_step e p of (p1, a) \<Rightarrow> (case p_run es p1 of (p2, b) \<Rightarrow> (p2, a @ b)))"

text \<open>
  initializePromptRoutes (lines 73 to 134) awaits the first call of connectToRabbitMQ
  and registers the route when that call has returned.
\<close>

definition initializePromptRoutes :: "producer \<times> effect list" where
  "initializePromptRoutes = connectToRabbitMQ producer_init"

subsection \<open>The POST /submit handler\<close>

text \<open>The four fields destructured from the request body; an absent one is \<open>JUndefined\<close>.\<close>

record prompt_request =
  promptText :: jsval
  requestedModel :: jsval
  enhance :: jsval
  promptId :: jsval

text \<open>The status and the one property of the JSON body that the handler sends.\<close>

record response =
  status :: nat
  body :: "string \<times> string"

datatype send_outcome = SendReturns bool | SendThrows

text \<open>
  What the handler is given by its surroundings: \<^verbatim>\<open>JSON.stringify\<close>, whether the awaited
  assertQueue resolves, the events the module handles during that await, and what
  sendToQueue does.
\<close>

record submit_env =
  JSON_stringify :: "jsval \<Rightarrow> string"
  assertQueue_resolves :: bool
  during_assertQueue :: "p_event list"
  sendToQueue_outcome :: send_outcome

text \<open>The object of lines 105 to 110.\<close>

definition message_of :: "prompt_request \<Rightarrow> jsval" where
  "message_of r =
     JObj [(''promptText'', promptText r), (''requestedModel'', requestedModel r),
           (''enhance'', enhance r), (''promptId'', promptId r)]"

text \<open>The condition of line 99, and the condition of line 95.\<close>

definition no_connection :: "producer \<Rightarrow> bool" where
  "no_connection p =
     (case rabbitConnection p of None \<Rightarrow> True | Some c \<Rightarrow> connection_is_null c)"

definition channel_unavailable :: "producer \<Rightarrow> bool" where
  "channel_unavailable p = (rabbitChannel p = None \<or> no_connection p)"

definition internal_error :: response where
  "internal_error =
     \<lparr>status = 500, body = (''error'', ''Failed to publish prompt request due to an internal error.'')\<rparr>"

text \<open>
  Lines 112 to 129, for the channel \<open>ch\<close> that line 95 found. \<open>rabbitChannel\<close> is read
  again after the await, in the state the handlers left; reading sendToQueue of null is a
  TypeError, caught like any other exception.
\<close>

definition publish ::
  "submit_env \<Rightarrow> prompt_request \<Rightarrow> producer \<Rightarrow> nat \<Rightarrow> response \<times> producer \<times> effect list" where
  "publish env r p ch =
     (let p1 = fst (p_run (during_assertQueue env) p);
          asserted = [Log LInfo ''Received POST /submit request with payload:'',
                      AssertQueue ch QUEUE_NAME True];
          failed = [Log LError ''Error publishing message to RabbitMQ or asserting queue'']
      in if \<not> assertQueue_resolves env then (internal_error, p1, asserted @ failed)
         else (case rabbitChannel p1 of
                 None \<Rightarrow> (internal_error, p1, asserted @ failed)
               | Some ch1 \<Rightarrow>
                   (let sent = asserted @
                          [SendToQueue ch1 QUEUE_NAME (JSON_stringify env (message_of r)) True]
                    in case sendToQueue_outcome env of
                         SendThrows \<Rightarrow> (internal_error, p1, sent @ failed)
                       | SendReturns success \<Rightarrow>
                           if success
                           then (\<lparr>status = 202,
                                   body = (''message'', ''Prompt request received and is being processed.'')\<rparr>,
                                 p1, sent @ [Log LInfo ''Message successfully published to queue''])
                           else (\<lparr>status = 503,
                                   body = (''error'', ''Service temporarily overloaded. Please try again.'')\<rparr>,
                                 p1, sent @ [Log LError ''Failed to publish message to queue'']))))"

text \<open>
  Lines 95 to 103. The call of connectToRabbitMQ is not awaited: it runs to its first
  await and the handler goes on.
\<close>

definition unavailable :: "producer \<Rightarrow> response \<times> producer \<times> effect list" where
  "unavailable p =
     (case (if no_connection p then connectToRabbitMQ p else (p, [])) of (p', es) \<Rightarrow>
        (\<lparr>status = 503,
          body = (''error'', ''Service temporarily unavailable. Please try again later.'')\<rparr>,
         p',
         [Log LInfo ''Received POST /submit request with payload:'',
          Log LError ''RabbitMQ channel not available. Cannot publish message. Attempting to reconnect...'']
         @ es))"

text \<open>
  The handler (lines 85 to 130). Past the check of line 95 \<open>rabbitChannel\<close> is not
  null, so the \<open>None\<close> case of the last branch is never taken.
\<close>

definition submit ::
  "submit_env \<Rightarrow> prompt_request \<Rightarrow> producer \<Rightarrow> response \<times> producer \<times> effect list" where
  "submit env r p =
     (if \<not> truthy (promptText r) \<and> \<not> truthy (promptId r)
      then (\<lparr>status = 400, body = (''error'', ''Either promptText or promptId must be provided.'')\<rparr>,
            p,
            [Log LInfo ''Received POST /submit request with payload:'',
             Log LWarn ''Invalid request to /submit: promptText or promptId is required.''])
      else if channel_unavailable p then unavailable p
      else (case rabbitChannel p of
              None \<Rightarrow> unavailable p
            | Some ch \<Rightarrow> publish env r p ch))"

definition submit_response :: "submit_env \<Rightarrow> prompt_request \<Rightarrow> producer \<Rightarrow> response" where
  "submit_response env r p = fst (submit env r p)"

definition submit_state :: "submit_env \<Rightarrow> prompt_request \<Rightarrow> producer \<Rightarrow> producer" where
  "submit_state env r p = fst (snd (submit env r p))"

definition submit_effects :: "submit_env \<Rightarrow> prompt_request \<Rightarrow> producer \<Rightarrow> effect list" where
  "submit_effects env r p = snd (snd (submit env r p))"

text \<open>A run of the API process: events and requests, one after the other.\<close>

datatype p_action = Event p_event | Submit submit_env prompt_request

fun api_run :: "p_action list \<Rightarrow> producer \<Rightarrow> producer" where
  "api_run [] p = p"
| "api_run (Event e # as) p = api_run as (fst (p_step e p))"
| "api_run (Submit env r # as) p = api_run as (submit_state env r p)"

section \<open>Example runs\<close>

subsection \<open>Of the worker\<close>

text \<open>
  Three messages: the valid one and the unparsable one of worker.test.ts, and the empty
  object; a parser that knows their texts; a prompt service that resolves and one that
  rejects.
\<close>

definition msg_hello :: consume_message where
  \<open>msg_hello = \<lparr>content = ''{"promptText":"Hello AI"}'', delivery_tag = 1\<rparr>\<close>

definition msg_garbled :: consume_message where
  "msg_garbled = \<lparr>content = ''{invalid json'', delivery_tag = 2\<rparr>"

definition msg_empty_object :: consume_message where
  "msg_empty_object = \<lparr>content = ''{}'', delivery_tag = 3\<rparr>"

definition parse_example :: "string \<Rightarrow> jsval option" where
  \<open>parse_example s =
     (if s = ''{"promptText":"Hello AI"}'' then Some (JObj [(''promptText'', JStr ''Hello AI'')])
      else if s = ''{}'' then Some (JObj [])
      else if s = ''null'' then Some JNull
      else None)\<close>

definition service_resolves :: "jsval \<Rightarrow> jsval \<Rightarrow> jsval \<Rightarrow> jsval \<Rightarrow> string + string" where
  "service_resolves pt rm en pid = Inr ''Processed successfully''"

definition service_rejects :: "jsval \<Rightarrow> jsval \<Rightarrow> jsval \<Rightarrow> jsval \<Rightarrow> string + string" where
  "service_rejects pt rm en pid = Inl ''Service error''"

definition never :: "nat \<Rightarrow> bool" where
  "never ch = False"

text \<open>Nothing happens during the await, or connection 1 closes during it.\<close>

definition env_quiet_resolves :: callback_env where
  "env_quiet_resolves = \<lparr>JSON_parse = parse_example, processPrompt = service_resolves,
     during_processPrompt = [], ack_throws = never, nack_throws = never\<rparr>"

definition env_quiet_rejects :: callback_env where
  "env_quiet_rejects = \<lparr>JSON_parse = parse_example, processPrompt = service_rejects,
     during_processPrompt = [], ack_throws = never, nack_throws = never\<rparr>"

definition env_closing_resolves :: callback_env where
  "env_closing_resolves = \<lparr>JSON_parse = parse_example, processPrompt = service_resolves,
     during_processPrompt = [WConnectionClose 1], ack_throws = never, nack_throws = never\<rparr>"

definition env_closing_rejects :: callback_env where
  "env_closing_rejects = \<lparr>JSON_parse = parse_example, processPrompt = service_rejects,
     during_processPrompt = [WConnectionClose 1], ack_throws = never, nack_throws = never\<rparr>"

text \<open>The worker after a first connection that went through: it consumes on channel 1.\<close>

definition worker_started :: worker where
  "worker_started = fst (startWorker (Some ()) (Some ()))"

definition worker_connected :: worker where
  "worker_connected =
     fst (w_run [WConnectResolves 0 1, WCreateChannelResolves 0 1, WAssertQueueResolves 0]
            worker_started)"

text \<open>
  A run that ends with a live consumer while \<open>channel\<close> is null. The first assertQueue
  fails and the broker closes channel 1; the catch block closes connection 1, whose close
  handler sets a timer, and then sets a timer of its own. Both timers fire, and calls 1
  and 2 each open a connection and consume: on channel 2 of connection 2 and on channel 3
  of connection 3. Then connection 2 closes, and its handler clears both variables while
  connection 3 and the consumer on channel 3 live on.
\<close>

definition two_connections :: "w_event list" where
  "two_connections =
     [WConnectResolves 0 1, WCreateChannelResolves 0 1, WChannelClose 1,
      WAssertQueueRejects 0, WConnectionClose 1, WCloseSettles 0 True,
      WTimerFires, WTimerFires,
      WConnectResolves 1 2, WCreateChannelResolves 1 2, WAssertQueueResolves 1,
      WConnectResolves 2 3, WCreateChannelResolves 2 3, WAssertQueueResolves 2,
      WConnectionClose 2]"

definition worker_two_connections :: worker where
  "worker_two_connections = fst (w_run two_connections worker_started)"

subsection \<open>Of the API process\<close>

definition conn1 :: connection_handle where
  "conn1 = \<lparr>conn_id = 1, connection_is_null = False\<rparr>"

definition conn2 :: connection_handle where
  "conn2 = \<lparr>conn_id = 2, connection_is_null = False\<rparr>"

text \<open>The valid request of routes.test.ts, and the empty one.\<close>

definition req_test_prompt :: prompt_request where
  "req_test_prompt = \<lparr>promptText = JStr ''Test prompt'', requestedModel = JUndefined,
     enhance = JUndefined, promptId = JUndefined\<rparr>"

definition req_empty :: prompt_request where
  "req_empty = \<lparr>promptText = JUndefined, requestedModel = JUndefined,
     enhance = JUndefined, promptId = JUndefined\<rparr>"

definition stringify_example :: "jsval \<Rightarrow> string" where
  \<open>stringify_example v =
     (if v = message_of req_test_prompt then ''{"promptText":"Test prompt"}'' else ''{}'')\<close>

definition env_accepts :: submit_env where
  "env_accepts = \<lparr>JSON_stringify = stringify_example, assertQueue_resolves = True,
     during_assertQueue = [], sendToQueue_outcome = SendReturns True\<rparr>"

definition env_buffer_full :: submit_env where
  "env_buffer_full = \<lparr>JSON_stringify = stringify_example, assertQueue_resolves = True,
     during_assertQueue = [], sendToQueue_outcome = SendReturns False\<rparr>"

definition env_send_throws :: submit_env where
  "env_send_throws = \<lparr>JSON_stringify = stringify_example, assertQueue_resolves = True,
     during_assertQueue = [], sendToQueue_outcome = SendThrows\<rparr>"

definition env_assert_rejects :: submit_env where
  "env_assert_rejects = \<lparr>JSON_stringify = stringify_example, assertQueue_resolves = False,
     during_assertQueue = [], sendToQueue_outcome = SendReturns True\<rparr>"

text \<open>
  The API process connected on channel 1; after a first connect that failed, with the
  retry timer pending (the state of the test for status 503); with that timer fired and
  call 1 waiting for \<^verbatim>\<open>amqp.connect\<close>; and, after a close of connection 1, with call 1
  past \<^verbatim>\<open>amqp.connect\<close> and waiting for its channel.
\<close>

definition producer_connected :: producer where
  "producer_connected =
     fst (p_run [PConnectResolves 0 conn1, PCreateChannelResolves 0 1, PAssertQueueResolves 0]
            (fst initializePromptRoutes))"

definition producer_down :: producer where
  "producer_down = fst (p_run [PConnectRejects 0] (fst initializePromptRoutes))"

definition producer_retrying :: producer where
  "producer_retrying = fst (p_run [PTimerFires] producer_down)"

definition producer_reconnecting :: producer where
  "producer_reconnecting =
     fst (p_run [PConnectionClose 1, PTimerFires, PConnectResolves 1 conn2] producer_connected)"

section \<open>Properties of the consumer\<close>

lemma settlements_Nil: "settlements [] = []"
  by (simp add: settlements_def)

lemma settlements_Cons:
  "settlements (e # es) = (if is_settlement e then e # settlements es else settlements es)"
  by (simp add: settlements_def)

lemma settlements_append: "settlements (xs @ ys) = settlements xs @ settlements ys"
  by (simp add: settlements_def)

lemma invocations_Nil: "invocations [] = []"
  by (simp add: invocations_def)

lemma invocations_Cons:
  "invocations (e # es) = (if is_invocation e then e # invocations es else invocations es)"
  by (simp add: invocations_def)

lemma invocations_append: "invocations (xs @ ys) = invocations xs @ invocations ys"
  by (simp add: invocations_def)

lemmas effect_filters =
  settlements_Nil settlements_Cons settlements_append
  invocations_Nil invocations_Cons invocations_append

subsection \<open>The pieces of the callback\<close>

lemma on_catch_settlements:
  "settlements (fst (snd (on_catch env w msg sofar))) =
     settlements sofar @ (case channel w of None \<Rightarrow> [] | Some ch \<Rightarrow> [Nack ch msg False False])"
  by (simp add: on_catch_def effect_filters split: option.split)

lemma on_catch_invocations:
  "invocations (fst (snd (on_catch env w msg sofar))) = invocations sofar"
  by (simp add: on_catch_def effect_filters split: option.split)

lemma on_catch_completion:
  "snd (snd (on_catch env w msg sofar)) =
     (case channel w of None \<Rightarrow> Returned | Some ch \<Rightarrow> if nack_throws env ch then Threw else Returned)"
  by (simp add: on_catch_def split: option.split)

lemma reject_invalid_settlements:
  "settlements (fst (snd (reject_invalid env w msg))) =
     (case channel w of
        None \<Rightarrow> []
      | Some ch \<Rightarrow>
          if nack_throws env ch then [Nack ch msg False False, Nack ch msg False False]
          else [Nack ch msg False False])"
  by (simp add: reject_invalid_def on_catch_settlements effect_filters split: option.split)

lemma reject_invalid_invocations: "invocations (fst (snd (reject_invalid env w msg))) = []"
  by (simp add: reject_invalid_def on_catch_invocations effect_filters split: option.split)

lemma reject_invalid_completion:
  "snd (snd (reject_invalid env w msg)) =
     (case channel w of None \<Rightarrow> Returned | Some ch \<Rightarrow> if nack_throws env ch then Threw else Returned)"
  by (simp add: reject_invalid_def on_catch_completion split: option.split)

lemma dispatch_settlements:
  "settlements (fst (snd (dispatch env w msg payload))) =
     (case channel (after_await env w) of
        None \<Rightarrow> []
      | Some ch \<Rightarrow>
          (case processPrompt env (jsget payload ''promptText'') (jsget payload ''requestedModel'')
                  (jsget payload ''enhance'') (jsget payload ''promptId'') of
             Inl e \<Rightarrow> [Nack ch msg False False]
           | Inr r \<Rightarrow>
               if ack_throws env ch then [Ack ch msg, Nack ch msg False False] else [Ack ch msg]))"
  by (auto simp: dispatch_def Let_def on_catch_settlements effect_filters
        split: option.split sum.split)

lemma dispatch_invocations:
  "invocations (fst (snd (dispatch env w msg payload))) =
     [ProcessPrompt (jsget payload ''promptText'') (jsget payload ''requestedModel'')
        (jsget payload ''enhance'') (jsget payload ''promptId'')]"
  by (simp add: dispatch_def Let_def on_catch_invocations effect_filters
        split: option.split sum.split)

lemma dispatch_completion_None:
  "channel (after_await env w) = None \<Longrightarrow> snd (snd (dispatch env w msg payload)) = Returned"
  by (simp add: dispatch_def Let_def on_catch_completion split: sum.split)

lemma callback_invalid:
  "\<not> decodes_valid env msg \<Longrightarrow>
     consume_callback env (Some msg) w = reject_invalid env w msg \<or>
     consume_callback env (Some msg) w = on_catch env w msg [Log LInfo ''Received message from queue'']"
  by (auto simp: decodes_valid_def consume_callback_def split: option.splits)

lemma callback_valid:
  "JSON_parse env (content msg) = Some payload \<Longrightarrow> \<not> nullish payload \<Longrightarrow>
   truthy (jsget payload ''promptText'') \<or> truthy (jsget payload ''promptId'') \<Longrightarrow>
     consume_callback env (Some msg) w = dispatch env w msg payload"
  by (auto simp add: consume_callback_def)

subsection \<open>The example states, evaluated\<close>

lemma worker_started_eq:
  "worker_started = \<lparr>connection = None, channel = None, w_attempts = [(0, WAwaitConnect)],
     w_next = 1, w_timers = 0, conn_handlers = [], chan_handlers = []\<rparr>"
  by (simp add: worker_started_def startWorker_def connectAndConsume_def worker_init_def)

lemma worker_connected_eq:
  "worker_connected = \<lparr>connection = Some 1, channel = Some 1, w_attempts = [], w_next = 1,
     w_timers = 0, conn_handlers = [1], chan_handlers = [1]\<rparr>"
  by (simp add: worker_connected_def worker_started_eq set_pc_def settle_def)

lemma worker_two_connections_eq:
  "worker_two_connections = \<lparr>connection = None, channel = None, w_attempts = [], w_next = 3,
     w_timers = 1, conn_handlers = [3], chan_handlers = [3, 2]\<rparr>"
  by (simp add: worker_two_connections_def two_connections_def worker_started_eq set_pc_def
        settle_def w_catch_def w_catch_connection_def w_retry_def connectAndConsume_def)

lemma two_connections_effects:
  "calls_made (snd (w_run two_connections worker_started)) =
     [CreateChannel 1, AssertQueue 1 QUEUE_NAME True, ConnectionClose 1,
      SetTimeout RECONNECT_DELAY_MS, SetTimeout RECONNECT_DELAY_MS, AmqpConnect, AmqpConnect,
      CreateChannel 2, AssertQueue 2 QUEUE_NAME True, Consume 2 QUEUE_NAME False,
      CreateChannel 3, AssertQueue 3 QUEUE_NAME True, Consume 3 QUEUE_NAME False,
      SetTimeout RECONNECT_DELAY_MS]"
  by (simp add: two_connections_def worker_started_eq set_pc_def calls_made_def
        settle_def w_catch_def w_catch_connection_def w_retry_def connectAndConsume_def)

lemma closing_after_await:
  "during_processPrompt env = [WConnectionClose 1] \<Longrightarrow>
     channel (after_await env worker_connected) = None"
  by (simp add: after_await_def worker_connected_eq)

lemma quiet_after_await:
  "during_processPrompt env = [] \<Longrightarrow> after_await env w = w"
  by (simp add: after_await_def)

lemma hello_parses:
  "parse_example (content msg_hello) = Some (JObj [(''promptText'', JStr ''Hello AI'')])"
  by (simp add: parse_example_def msg_hello_def)

lemma hello_valid: "JSON_parse env = parse_example \<Longrightarrow> decodes_valid env msg_hello"
  by (simp add: decodes_valid_def hello_parses)

lemma garbled_invalid: "JSON_parse env = parse_example \<Longrightarrow> \<not> decodes_valid env msg_garbled"
  by (simp add: decodes_valid_def parse_example_def msg_garbled_def)

lemma empty_object_invalid:
  "JSON_parse env = parse_example \<Longrightarrow> \<not> decodes_valid env msg_empty_object"
  by (simp add: decodes_valid_def parse_example_def msg_empty_object_def)

subsection \<open>Settlement of a message\<close>

text \<open>
  C10. If \<open>channel\<close> is null at the place where the callback would settle the message
  (the ack after a dispatch that resolved, the nack of the catch block, the nack for an
  invalid message), the optional call is skipped: the callback makes no ack and no nack
  at all, and returns normally.
\<close>

theorem null_handle_skips_settlement:
  "settle_handle env msg w = None \<Longrightarrow>
     settlements (callback_effects env (Some msg) w) = [] \<and>
     callback_completion env (Some msg) w = Returned"
proof (cases "decodes_valid env msg")
  case True
  assume h: "settle_handle env msg w = None"
  from True obtain payload where p: "JSON_parse env (content msg) = Some payload"
    "\<not> nullish payload" "truthy (jsget payload ''promptText'') \<or> truthy (jsget payload ''promptId'')"
    by (auto simp: decodes_valid_def split: option.splits)
  from h True have c: "channel (after_await env w) = None" by (simp add: settle_handle_def)
  have "consume_callback env (Some msg) w = dispatch env w msg payload"
    using p by (rule callback_valid)
  then show ?thesis using c
    by (simp add: callback_effects_def callback_completion_def dispatch_settlements
          dispatch_completion_None)
next
  case False
  assume h: "settle_handle env msg w = None"
  from h False have c: "channel w = None" by (simp add: settle_handle_def)
  from callback_invalid [OF False, of w] show ?thesis
  proof
    assume "consume_callback env (Some msg) w = reject_invalid env w msg"
    then show ?thesis using c
      by (simp add: callback_effects_def callback_completion_def reject_invalid_settlements
            reject_invalid_completion)
  next
    assume "consume_callback env (Some msg) w =
              on_catch env w msg [Log LInfo ''Received message from queue'']"
    then show ?thesis using c
      by (simp add: callback_effects_def callback_completion_def on_catch_settlements
            on_catch_completion effect_filters)
  qed
qed

text \<open>
  The valid message is being processed on channel 1 when connection 1 closes; the prompt
  service then rejects, and the nack of the catch block is skipped.
\<close>

theorem null_handle_skips_settlement_witness:
  "settle_handle env_closing_rejects msg_hello worker_connected = None \<and>
   settlements (callback_effects env_closing_rejects (Some msg_hello) worker_connected) = [] \<and>
   callback_completion env_closing_rejects (Some msg_hello) worker_connected = Returned"
proof -
  have h: "settle_handle env_closing_rejects msg_hello worker_connected = None"
    by (simp add: settle_handle_def hello_valid closing_after_await env_closing_rejects_def)
  from null_handle_skips_settlement [OF h] h show ?thesis by simp
qed

text \<open>
  C1, as amended. A message that parses, can be read and has a truthy promptText or
  promptId is handed to the prompt service exactly once, and is settled on the channel
  that \<open>channel\<close> holds when that call settles: if the call resolves, by exactly one ack,
  with no nack unless that ack itself throws (the catch block then nacks); if the call
  rejects, by exactly one nack with requeue false and no ack. If \<open>channel\<close> is null at
  that moment, no ack and no nack is made.
\<close>

theorem valid_message_settlement:
  assumes "JSON_parse env (content msg) = Some payload"
    and "\<not> nullish payload"
    and "truthy (jsget payload ''promptText'') \<or> truthy (jsget payload ''promptId'')"
  shows "invocations (callback_effects env (Some msg) w) =
           [ProcessPrompt (jsget payload ''promptText'') (jsget payload ''requestedModel'')
              (jsget payload ''enhance'') (jsget payload ''promptId'')] \<and>
         settlements (callback_effects env (Some msg) w) =
           (case channel (after_await env w) of
              None \<Rightarrow> []
            | Some ch \<Rightarrow>
                (case processPrompt env (jsget payload ''promptText'') (jsget payload ''requestedModel'')
                        (jsget payload ''enhance'') (jsget payload ''promptId'') of
                   Inl e \<Rightarrow> [Nack ch msg False False]
                 | Inr r \<Rightarrow>
                     if ack_throws env ch then [Ack ch msg, Nack ch msg False False]
                     else [Ack ch msg]))"
proof -
  have "consume_callback env (Some msg) w = dispatch env w msg payload"
    using assms by (rule callback_valid)
  then show ?thesis
    by (simp add: callback_effects_def dispatch_settlements dispatch_invocations)
qed

text \<open>
  The valid message of the tests on the connected worker: acknowledged once when the
  service resolves.
\<close>

theorem valid_message_settlement_witness:
  "JSON_parse env_quiet_resolves (content msg_hello) = Some (JObj [(''promptText'', JStr ''Hello AI'')]) \<and>
   invocations (callback_effects env_quiet_resolves (Some msg_hello) worker_connected) =
     [ProcessPrompt (JStr ''Hello AI'') JUndefined JUndefined JUndefined] \<and>
   settlements (callback_effects env_quiet_resolves (Some msg_hello) worker_connected) =
     [Ack 1 msg_hello] \<and>
   JSON_parse env_quiet_rejects (content msg_hello) = Some (JObj [(''promptText'', JStr ''Hello AI'')]) \<and>
   settlements (callback_effects env_quiet_rejects (Some msg_hello) worker_connected) =
     [Nack 1 msg_hello False False]"
proof -
  have p: "JSON_parse env_quiet_resolves (content msg_hello) =
             Some (JObj [(''promptText'', JStr ''Hello AI'')])"
    by (simp add: env_quiet_resolves_def hello_parses)
  have q: "JSON_parse env_quiet_rejects (content msg_hello) =
             Some (JObj [(''promptText'', JStr ''Hello AI'')])"
    by (simp add: env_quiet_rejects_def hello_parses)
  have n: "\<not> nullish (JObj [(''promptText'', JStr ''Hello AI'')])" by simp
  have t: "truthy (jsget (JObj [(''promptText'', JStr ''Hello AI'')]) ''promptText'') \<or>
           truthy (jsget (JObj [(''promptText'', JStr ''Hello AI'')]) ''promptId'')" by simp
  have a: "channel (after_await env_quiet_resolves worker_connected) = Some 1"
    by (simp add: quiet_after_await env_quiet_resolves_def worker_connected_eq)
  have b: "channel (after_await env_quiet_rejects worker_connected) = Some 1"
    by (simp add: quiet_after_await env_quiet_rejects_def worker_connected_eq)
  have s: "processPrompt env_quiet_resolves (JStr ''Hello AI'') JUndefined JUndefined JUndefined =
             Inr ''Processed successfully''"
    by (simp add: env_quiet_resolves_def service_resolves_def)
  have r: "processPrompt env_quiet_rejects (JStr ''Hello AI'') JUndefined JUndefined JUndefined =
             Inl ''Service error''"
    by (simp add: env_quiet_rejects_def service_rejects_def)
  have k: "\<not> ack_throws env_quiet_resolves ch" for ch
    by (simp add: env_quiet_resolves_def never_def)
  from valid_message_settlement [OF p n t, of worker_connected]
    valid_message_settlement [OF q n t, of worker_connected]
  show ?thesis
    by (simp add: a b s r k p q)
qed

text \<open>
  The claim as stated fails: the same message, on the same worker, with a service that
  resolves, is neither acknowledged nor discarded when connection 1 closes while the
  service is at work.
\<close>

theorem settled_exactly_once_counterexample:
  "decodes_valid env_closing_resolves msg_hello \<and>
   processPrompt env_closing_resolves (JStr ''Hello AI'') JUndefined JUndefined JUndefined =
     Inr ''Processed successfully'' \<and>
   channel worker_connected = Some 1 \<and>
   settlements (callback_effects env_closing_resolves (Some msg_hello) worker_connected) = []"
proof -
  have v: "decodes_valid env_closing_resolves msg_hello"
    by (simp add: hello_valid env_closing_resolves_def)
  have p: "JSON_parse env_closing_resolves (content msg_hello) =
             Some (JObj [(''promptText'', JStr ''Hello AI'')])"
    by (simp add: env_closing_resolves_def hello_parses)
  have c: "channel (after_await env_closing_resolves worker_connected) = None"
    by (simp add: closing_after_await env_closing_resolves_def)
  have "consume_callback env_closing_resolves (Some msg_hello) worker_connected =
          dispatch env_closing_resolves worker_connected msg_hello
            (JObj [(''promptText'', JStr ''Hello AI'')])"
    using p by (rule callback_valid) simp_all
  then have "settlements (callback_effects env_closing_resolves (Some msg_hello) worker_connected) = []"
    using c by (simp add: callback_effects_def dispatch_settlements)
  moreover have "processPrompt env_closing_resolves (JStr ''Hello AI'') JUndefined JUndefined JUndefined =
                   Inr ''Processed successfully''"
    by (simp add: env_closing_resolves_def service_resolves_def)
  moreover have "channel worker_connected = Some 1" by (simp add: worker_connected_eq)
  ultimately show ?thesis using v by simp
qed

text \<open>
  C3, as amended. For a message that does not parse, or cannot be read, or has neither a
  truthy promptText nor a truthy promptId, the prompt service is never called and no ack
  is made. If \<open>channel\<close> is not null when the callback runs, the message is nacked with
  requeue false: exactly once when that nack returns normally, and by nothing but such
  nacks when it throws. If \<open>channel\<close> is null, no nack is made.
\<close>

theorem invalid_message_discarded:
  assumes "\<not> decodes_valid env msg"
  shows "invocations (callback_effects env (Some msg) w) = [] \<and>
         (case channel w of
            None \<Rightarrow> settlements (callback_effects env (Some msg) w) = []
          | Some ch \<Rightarrow>
              if nack_throws env ch
              then set (settlements (callback_effects env (Some msg) w)) = {Nack ch msg False False}
              else settlements (callback_effects env (Some msg) w) = [Nack ch msg False False])"
  using callback_invalid [OF assms, of w]
proof
  assume "consume_callback env (Some msg) w = reject_invalid env w msg"
  then show ?thesis
    by (simp add: callback_effects_def reject_invalid_settlements reject_invalid_invocations
          split: option.split)
next
  assume "consume_callback env (Some msg) w =
            on_catch env w msg [Log LInfo ''Received message from queue'']"
  then show ?thesis
    by (simp add: callback_effects_def on_catch_settlements on_catch_invocations effect_filters
          split: option.split)
qed

text \<open>The unparsable message of the tests on the connected worker: one nack, no call.\<close>

theorem invalid_message_discarded_witness:
  "\<not> decodes_valid env_quiet_resolves msg_garbled \<and>
   invocations (callback_effects env_quiet_resolves (Some msg_garbled) worker_connected) = [] \<and>
   settlements (callback_effects env_quiet_resolves (Some msg_garbled) worker_connected) =
     [Nack 1 msg_garbled False False] \<and>
   \<not> decodes_valid env_quiet_resolves msg_empty_object \<and>
   invocations (callback_effects env_quiet_resolves (Some msg_empty_object) worker_connected) = [] \<and>
   settlements (callback_effects env_quiet_resolves (Some msg_empty_object) worker_connected) =
     [Nack 1 msg_empty_object False False]"
proof -
  have h: "\<not> decodes_valid env_quiet_resolves msg_garbled"
    by (simp add: garbled_invalid env_quiet_resolves_def)
  have g: "\<not> decodes_valid env_quiet_resolves msg_empty_object"
    by (simp add: empty_object_invalid env_quiet_resolves_def)
  have c: "channel worker_connected = Some 1" by (simp add: worker_connected_eq)
  have k: "\<not> nack_throws env_quiet_resolves ch" for ch
    by (simp add: env_quiet_resolves_def never_def)
  from invalid_message_discarded [OF h, of worker_connected]
    invalid_message_discarded [OF g, of worker_connected] h g
  show ?thesis
    by (simp add: c k)
qed

text \<open>
  The claim as stated fails: in the run \<open>two_connections\<close> a consumer was registered on
  channel 3, connection 3 is still open, and \<open>channel\<close> is null; the empty object
  delivered there is not nacked.
\<close>

theorem invalid_message_discarded_counterexample:
  "Consume 3 QUEUE_NAME False \<in> set (snd (w_run two_connections worker_started)) \<and>
   3 \<in> set (conn_handlers worker_two_connections) \<and>
   channel worker_two_connections = None \<and>
   \<not> decodes_valid env_quiet_resolves msg_empty_object \<and>
   settlements (callback_effects env_quiet_resolves (Some msg_empty_object) worker_two_connections) = []"
proof -
  have e: "Consume 3 QUEUE_NAME False \<in> set (calls_made (snd (w_run two_connections worker_started)))"
    by (simp add: two_connections_effects)
  have h: "\<not> decodes_valid env_quiet_resolves msg_empty_object"
    by (simp add: empty_object_invalid env_quiet_resolves_def)
  have "consume_callback env_quiet_resolves (Some msg_empty_object) worker_two_connections =
          reject_invalid env_quiet_resolves worker_two_connections msg_empty_object"
    by (simp add: consume_callback_def env_quiet_resolves_def parse_example_def
          msg_empty_object_def)
  then have "settlements (callback_effects env_quiet_resolves (Some msg_empty_object)
               worker_two_connections) = []"
    by (simp add: callback_effects_def reject_invalid_settlements worker_two_connections_eq)
  moreover have "3 \<in> set (conn_handlers worker_two_connections)"
    by (simp add: worker_two_connections_eq)
  moreover have "channel worker_two_connections = None"
    by (simp add: worker_two_connections_eq)
  moreover from e have "Consume 3 QUEUE_NAME False \<in> set (snd (w_run two_connections worker_started))"
    by (simp add: calls_made_def)
  ultimately show ?thesis using h by simp
qed

section \<open>Properties of the producer\<close>

lemma calls_made_Nil: "calls_made [] = []"
  by (simp add: calls_made_def)

lemma calls_made_Cons:
  "calls_made (e # es) = (if is_log e then calls_made es else e # calls_made es)"
  by (simp add: calls_made_def)

lemma calls_made_append: "calls_made (xs @ ys) = calls_made xs @ calls_made ys"
  by (simp add: calls_made_def)

lemma publishes_Nil: "publishes [] = []"
  by (simp add: publishes_def)

lemma publishes_Cons:
  "publishes (e # es) = (if is_publish e then e # publishes es else publishes es)"
  by (simp add: publishes_def)

lemma publishes_append: "publishes (xs @ ys) = publishes xs @ publishes ys"
  by (simp add: publishes_def)

lemmas call_filters =
  calls_made_Nil calls_made_Cons calls_made_append
  publishes_Nil publishes_Cons publishes_append

subsection \<open>The pieces of the handler\<close>

lemma publish_status:
  "status (fst (publish env r p ch)) =
     (if \<not> assertQueue_resolves env then 500
      else case rabbitChannel (fst (p_run (during_assertQueue env) p)) of
             None \<Rightarrow> 500
           | Some ch1 \<Rightarrow>
               (case sendToQueue_outcome env of
                  SendThrows \<Rightarrow> 500
                | SendReturns ok \<Rightarrow> if ok then 202 else 503))"
  by (simp add: publish_def Let_def internal_error_def split: option.split send_outcome.split)

lemma publish_calls_made:
  "calls_made (snd (snd (publish env r p ch))) =
     AssertQueue ch QUEUE_NAME True #
       (if \<not> assertQueue_resolves env then []
        else case rabbitChannel (fst (p_run (during_assertQueue env) p)) of
               None \<Rightarrow> []
             | Some ch1 \<Rightarrow> [SendToQueue ch1 QUEUE_NAME (JSON_stringify env (message_of r)) True])"
  by (simp add: publish_def Let_def call_filters split: option.split send_outcome.split)

lemma publish_publishes:
  "publishes (snd (snd (publish env r p ch))) =
     (if \<not> assertQueue_resolves env then []
      else case rabbitChannel (fst (p_run (during_assertQueue env) p)) of
             None \<Rightarrow> []
           | Some ch1 \<Rightarrow> [SendToQueue ch1 QUEUE_NAME (JSON_stringify env (message_of r)) True])"
  by (simp add: publish_def Let_def call_filters split: option.split send_outcome.split)

lemma unavailable_response:
  "fst (unavailable p) =
     \<lparr>status = 503, body = (''error'', ''Service temporarily unavailable. Please try again later.'')\<rparr>"
  by (simp add: unavailable_def split: prod.split)

lemma unavailable_state:
  "fst (snd (unavailable p)) = (if no_connection p then fst (connectToRabbitMQ p) else p)"
  by (simp add: unavailable_def split: prod.split)

lemma unavailable_calls_made:
  "calls_made (snd (snd (unavailable p))) = (if no_connection p then [AmqpConnect] else [])"
  by (simp add: unavailable_def connectToRabbitMQ_def call_filters)

lemma unavailable_publishes: "publishes (snd (snd (unavailable p))) = []"
  by (simp add: unavailable_def connectToRabbitMQ_def call_filters)

lemma submit_invalid:
  "\<not> truthy (promptText r) \<Longrightarrow> \<not> truthy (promptId r) \<Longrightarrow>
     submit env r p =
       (\<lparr>status = 400, body = (''error'', ''Either promptText or promptId must be provided.'')\<rparr>,
        p,
        [Log LInfo ''Received POST /submit request with payload:'',
         Log LWarn ''Invalid request to /submit: promptText or promptId is required.''])"
  by (simp add: submit_def)

lemma submit_unavailable:
  "truthy (promptText r) \<or> truthy (promptId r) \<Longrightarrow> channel_unavailable p \<Longrightarrow>
     submit env r p = unavailable p"
  by (auto simp: submit_def)

lemma submit_available:
  "truthy (promptText r) \<or> truthy (promptId r) \<Longrightarrow> \<not> channel_unavailable p \<Longrightarrow>
   rabbitChannel p = Some ch \<Longrightarrow>
     submit env r p = publish env r p ch"
  by (auto simp: submit_def)

lemma available_channel: "\<not> channel_unavailable p \<Longrightarrow> \<exists>ch. rabbitChannel p = Some ch"
  by (simp add: channel_unavailable_def)

subsection \<open>The example states, evaluated\<close>

lemma initialized_eq:
  "fst initializePromptRoutes = \<lparr>rabbitConnection = None, rabbitChannel = None,
     p_attempts = [(0, PAwaitConnect)], p_next = 1, p_timers = 0, p_handlers = []\<rparr>"
  by (simp add: initializePromptRoutes_def connectToRabbitMQ_def producer_init_def)

lemma producer_connected_eq:
  "producer_connected = \<lparr>rabbitConnection = Some conn1, rabbitChannel = Some 1,
     p_attempts = [], p_next = 1, p_timers = 0, p_handlers = [1]\<rparr>"
  by (simp add: producer_connected_def initialized_eq set_pc_def settle_def conn1_def)

lemma producer_down_eq:
  "producer_down = \<lparr>rabbitConnection = None, rabbitChannel = None,
     p_attempts = [], p_next = 1, p_timers = 1, p_handlers = []\<rparr>"
  by (simp add: producer_down_def initialized_eq p_catch_def settle_def)

lemma producer_retrying_eq:
  "producer_retrying = \<lparr>rabbitConnection = None, rabbitChannel = None,
     p_attempts = [(1, PAwaitConnect)], p_next = 2, p_timers = 0, p_handlers = []\<rparr>"
  by (simp add: producer_retrying_def producer_down_eq connectToRabbitMQ_def)

lemma producer_reconnecting_eq:
  "producer_reconnecting = \<lparr>rabbitConnection = Some conn2, rabbitChannel = None,
     p_attempts = [(1, PAwaitCreateChannel)], p_next = 2, p_timers = 0, p_handlers = [2]\<rparr>"
  by (simp add: producer_reconnecting_def producer_connected_eq connectToRabbitMQ_def
        set_pc_def conn2_def)

lemma test_prompt_truthy: "truthy (promptText req_test_prompt)"
  by (simp add: req_test_prompt_def)

lemma connected_available: "\<not> channel_unavailable producer_connected"
  by (simp add: channel_unavailable_def no_connection_def producer_connected_eq conn1_def)

subsection \<open>The outcomes of submit\<close>

text \<open>
  C6. When neither promptText nor promptId is truthy, and so in particular when both
  are absent, submit answers 400 with the message of a missing field, leaves the state
  of the module as it was, and makes no call on the broker or the timer: no assertQueue,
  no sendToQueue, no connection attempt.
\<close>

theorem missing_fields_rejected:
  "\<not> truthy (promptText r) \<Longrightarrow> \<not> truthy (promptId r) \<Longrightarrow>
     status (submit_response env r p) = 400 \<and>
     body (submit_response env r p) = (''error'', ''Either promptText or promptId must be provided.'') \<and>
     submit_state env r p = p \<and>
     calls_made (submit_effects env r p) = []"
  by (simp add: submit_response_def submit_state_def submit_effects_def submit_invalid call_filters)

theorem missing_fields_rejected_witness:
  "\<not> truthy (promptText req_empty) \<and> \<not> truthy (promptId req_empty) \<and>
   status (submit_response env_accepts req_empty producer_connected) = 400 \<and>
   submit_state env_accepts req_empty producer_connected = producer_connected \<and>
   calls_made (submit_effects env_accepts req_empty producer_connected) = []"
proof -
  have a: "\<not> truthy (promptText req_empty)" by (simp add: req_empty_def)
  have b: "\<not> truthy (promptId req_empty)" by (simp add: req_empty_def)
  from missing_fields_rejected [OF a b, of env_accepts producer_connected] a b
  show ?thesis by simp
qed

text \<open>
  C2, as amended. For a submission with a truthy promptText, whatever its promptId,
  when line 95 finds a channel, submit always calls assertQueue on it (durable), and
  makes no other call but the following. If that call resolves and \<open>rabbitChannel\<close> is
  not null when it does, submit then makes exactly one sendToQueue call, on the channel
  \<open>rabbitChannel\<close> then holds, with the JSON text of the four input fields and marked
  persistent; it answers 202 if sendToQueue returns true, 503 if it returns false and
  500 if it throws. If the assertQueue call rejects, or \<open>rabbitChannel\<close> is null when
  it resolves, submit makes no sendToQueue call and answers 500.
\<close>

theorem valid_submission_published:
  assumes "truthy (promptText r)"
    and "\<not> channel_unavailable p"
    and "rabbitChannel p = Some ch"
  shows "calls_made (submit_effects env r p) =
           AssertQueue ch QUEUE_NAME True #
             (if assertQueue_resolves env
              then (case rabbitChannel (fst (p_run (during_assertQueue env) p)) of
                      None \<Rightarrow> []
                    | Some ch1 \<Rightarrow>
                        [SendToQueue ch1 QUEUE_NAME (JSON_stringify env (message_of r)) True])
              else []) \<and>
         publishes (submit_effects env r p) =
           (if assertQueue_resolves env
            then (case rabbitChannel (fst (p_run (during_assertQueue env) p)) of
                    None \<Rightarrow> []
                  | Some ch1 \<Rightarrow>
                      [SendToQueue ch1 QUEUE_NAME (JSON_stringify env (message_of r)) True])
            else []) \<and>
         status (submit_response env r p) =
           (if assertQueue_resolves env
            then (case rabbitChannel (fst (p_run (during_assertQueue env) p)) of
                    None \<Rightarrow> 500
                  | Some ch1 \<Rightarrow>
                      (case sendToQueue_outcome env of
                         SendReturns ok \<Rightarrow> if ok then 202 else 503
                       | SendThrows \<Rightarrow> 500))
            else 500)"
proof -
  have "submit env r p = publish env r p ch"
    using assms by (simp add: submit_available)
  then show ?thesis
    by (simp add: submit_effects_def submit_response_def publish_calls_made publish_publishes
          publish_status)
qed

text \<open>
  The valid request of the tests on the connected process: accepted when sendToQueue
  returns true, answered 503 when it returns false, and answered 500 with no publish
  when assertQueue rejects.
\<close>

theorem valid_submission_published_witness:
  "truthy (promptText req_test_prompt) \<and>
   \<not> channel_unavailable producer_connected \<and>
   rabbitChannel producer_connected = Some 1 \<and>
   calls_made (submit_effects env_accepts req_test_prompt producer_connected) =
     [AssertQueue 1 QUEUE_NAME True,
      SendToQueue 1 QUEUE_NAME (stringify_example (message_of req_test_prompt)) True] \<and>
   status (submit_response env_accepts req_test_prompt producer_connected) = 202 \<and>
   calls_made (submit_effects env_buffer_full req_test_prompt producer_connected) =
     [AssertQueue 1 QUEUE_NAME True,
      SendToQueue 1 QUEUE_NAME (stringify_example (message_of req_test_prompt)) True] \<and>
   status (submit_response env_buffer_full req_test_prompt producer_connected) = 503 \<and>
   calls_made (submit_effects env_assert_rejects req_test_prompt producer_connected) =
     [AssertQueue 1 QUEUE_NAME True] \<and>
   status (submit_response env_assert_rejects req_test_prompt producer_connected) = 500"
proof -
  have c: "rabbitChannel producer_connected = Some 1" by (simp add: producer_connected_eq)
  have a: "assertQueue_resolves env_accepts" "assertQueue_resolves env_buffer_full"
    "\<not> assertQueue_resolves env_assert_rejects"
    by (simp_all add: env_accepts_def env_buffer_full_def env_assert_rejects_def)
  have d: "rabbitChannel (fst (p_run (during_assertQueue env_accepts) producer_connected)) = Some 1"
    "rabbitChannel (fst (p_run (during_assertQueue env_buffer_full) producer_connected)) = Some 1"
    by (simp_all add: env_accepts_def env_buffer_full_def producer_connected_eq)
  have s: "sendToQueue_outcome env_accepts = SendReturns True"
    "sendToQueue_outcome env_buffer_full = SendReturns False"
    by (simp_all add: env_accepts_def env_buffer_full_def)
  have j: "JSON_stringify env_accepts = stringify_example"
    "JSON_stringify env_buffer_full = stringify_example"
    by (simp_all add: env_accepts_def env_buffer_full_def)
  from valid_submission_published [OF test_prompt_truthy connected_available c, of env_accepts]
    valid_submission_published [OF test_prompt_truthy connected_available c, of env_buffer_full]
    valid_submission_published [OF test_prompt_truthy connected_available c, of env_assert_rejects]
  show ?thesis using test_prompt_truthy connected_available c
    by (simp add: a d s j)
qed

text \<open>
  The claim as stated fails: the same request, with a channel available, makes no
  sendToQueue call at all when the awaited assertQueue rejects, and is answered 500.
\<close>

theorem exactly_one_publish_counterexample:
  "truthy (promptText req_test_prompt) \<and>
   promptId req_test_prompt = JUndefined \<and>
   \<not> channel_unavailable producer_connected \<and>
   publishes (submit_effects env_assert_rejects req_test_prompt producer_connected) = [] \<and>
   status (submit_response env_assert_rejects req_test_prompt producer_connected) = 500"
proof -
  have c: "rabbitChannel producer_connected = Some 1" by (simp add: producer_connected_eq)
  have "submit env_assert_rejects req_test_prompt producer_connected =
          publish env_assert_rejects req_test_prompt producer_connected 1"
    using test_prompt_truthy connected_available c by (simp add: submit_available)
  moreover have "\<not> assertQueue_resolves env_assert_rejects"
    by (simp add: env_assert_rejects_def)
  ultimately have
    "publishes (submit_effects env_assert_rejects req_test_prompt producer_connected) = [] \<and>
     status (submit_response env_assert_rejects req_test_prompt producer_connected) = 500"
    by (simp add: submit_effects_def submit_response_def publish_publishes publish_status)
  moreover have "promptId req_test_prompt = JUndefined" by (simp add: req_test_prompt_def)
  ultimately show ?thesis using test_prompt_truthy connected_available by simp
qed

text \<open>
  C4, as amended. For a submission that passes the check of line 90 while line 95
  finds no usable channel, submit answers 503. If moreover \<open>rabbitConnection\<close> is null or
  its \<open>connection\<close> property is null (line 99), submit starts exactly one call of
  connectToRabbitMQ and returns while that call is still waiting for \<^verbatim>\<open>amqp.connect\<close>;
  if \<open>rabbitConnection\<close> holds a connection, submit starts none and leaves the state as
  it was.
\<close>

theorem unavailable_submission:
  assumes "truthy (promptText r) \<or> truthy (promptId r)"
    and "channel_unavailable p"
  shows "status (submit_response env r p) = 503 \<and>
         body (submit_response env r p) =
           (''error'', ''Service temporarily unavailable. Please try again later.'') \<and>
         (if no_connection p
          then calls_made (submit_effects env r p) = [AmqpConnect] \<and>
               submit_state env r p = fst (connectToRabbitMQ p) \<and>
               p_attempts (submit_state env r p) = p_attempts p @ [(p_next p, PAwaitConnect)]
          else calls_made (submit_effects env r p) = [] \<and>
               submit_state env r p = p)"
proof -
  have "submit env r p = unavailable p"
    using assms by (rule submit_unavailable)
  then show ?thesis
    by (simp add: submit_response_def submit_state_def submit_effects_def unavailable_response
          unavailable_state unavailable_calls_made)
       (simp add: connectToRabbitMQ_def)
qed

text \<open>
  The state of the test for status 503: the first connect failed. The request is answered
  503 and one call of connectToRabbitMQ is left in flight.
\<close>

theorem unavailable_submission_witness:
  "(truthy (promptText req_test_prompt) \<or> truthy (promptId req_test_prompt)) \<and>
   channel_unavailable producer_down \<and>
   no_connection producer_down \<and>
   status (submit_response env_accepts req_test_prompt producer_down) = 503 \<and>
   calls_made (submit_effects env_accepts req_test_prompt producer_down) = [AmqpConnect] \<and>
   p_attempts (submit_state env_accepts req_test_prompt producer_down) = [(1, PAwaitConnect)] \<and>
   channel_unavailable producer_reconnecting \<and>
   \<not> no_connection producer_reconnecting \<and>
   submit_state env_buffer_full req_test_prompt producer_reconnecting = producer_reconnecting"
proof -
  have t: "truthy (promptText req_test_prompt) \<or> truthy (promptId req_test_prompt)"
    by (simp add: test_prompt_truthy)
  have n: "no_connection producer_down" by (simp add: no_connection_def producer_down_eq)
  have u: "channel_unavailable producer_down" by (simp add: channel_unavailable_def n)
  have a: "p_attempts producer_down = []" "p_next producer_down = 1"
    by (simp_all add: producer_down_eq)
  have m: "\<not> no_connection producer_reconnecting"
    by (simp add: no_connection_def producer_reconnecting_eq conn2_def)
  have v: "channel_unavailable producer_reconnecting"
    by (simp add: channel_unavailable_def producer_reconnecting_eq)
  from unavailable_submission [OF t u, of env_accepts]
    unavailable_submission [OF t v, of env_buffer_full]
  show ?thesis
    using t u n m v by (simp add: a connectToRabbitMQ_def)
qed

text \<open>
  The claim as stated fails: while call 1 of connectToRabbitMQ waits for its channel,
  \<open>rabbitConnection\<close> holds connection 2 and \<open>rabbitChannel\<close> is null; the request is
  answered 503 and no connection attempt is started.
\<close>

theorem nudge_regardless_counterexample:
  "(truthy (promptText req_test_prompt) \<or> truthy (promptId req_test_prompt)) \<and>
   channel_unavailable producer_reconnecting \<and>
   status (submit_response env_accepts req_test_prompt producer_reconnecting) = 503 \<and>
   calls_made (submit_effects env_accepts req_test_prompt producer_reconnecting) = [] \<and>
   p_attempts (submit_state env_accepts req_test_prompt producer_reconnecting) =
     p_attempts producer_reconnecting"
proof -
  have t: "truthy (promptText req_test_prompt) \<or> truthy (promptId req_test_prompt)"
    by (simp add: test_prompt_truthy)
  have n: "\<not> no_connection producer_reconnecting"
    by (simp add: no_connection_def producer_reconnecting_eq conn2_def)
  have u: "channel_unavailable producer_reconnecting"
    by (simp add: channel_unavailable_def producer_reconnecting_eq)
  have "submit env_accepts req_test_prompt producer_reconnecting = unavailable producer_reconnecting"
    using t u by (rule submit_unavailable)
  then show ?thesis using t u n
    by (simp add: submit_response_def submit_state_def submit_effects_def unavailable_response
          unavailable_state unavailable_calls_made)
qed

text \<open>
  C8, as amended. Every call of submit is answered with exactly one of four statuses:
  202 (accepted), 400 (rejected), 503 (unavailable) or 500 (internal fault). It is 400
  exactly when neither promptText nor promptId is truthy; it is 202 only after exactly
  one sendToQueue call that returned true; it is 500 only when a channel was found and
  the assertQueue or the sendToQueue that followed failed.
\<close>

theorem submit_outcomes:
  "(status (submit_response env r p) = 202 \<or> status (submit_response env r p) = 400 \<or>
    status (submit_response env r p) = 503 \<or> status (submit_response env r p) = 500) \<and>
   (status (submit_response env r p) = 400) =
     (\<not> truthy (promptText r) \<and> \<not> truthy (promptId r)) \<and>
   (status (submit_response env r p) = 202 \<longrightarrow>
      length (publishes (submit_effects env r p)) = 1 \<and>
      sendToQueue_outcome env = SendReturns True) \<and>
   (status (submit_response env r p) = 500 \<longrightarrow>
      \<not> channel_unavailable p \<and>
      (assertQueue_resolves env \<longrightarrow>
       rabbitChannel (fst (p_run (during_assertQueue env) p)) = None \<or>
       sendToQueue_outcome env = SendThrows))"
proof (cases "\<not> truthy (promptText r) \<and> \<not> truthy (promptId r)")
  case True
  then show ?thesis
    by (simp add: submit_response_def submit_invalid)
next
  case False
  then have v: "truthy (promptText r) \<or> truthy (promptId r)" by simp
  show ?thesis
  proof (cases "channel_unavailable p")
    case True
    with v have "submit env r p = unavailable p" by (simp add: submit_unavailable)
    then show ?thesis using v True
      by (simp add: submit_response_def unavailable_response)
  next
    case False
    then obtain ch where "rabbitChannel p = Some ch" using available_channel by blast
    with v False have "submit env r p = publish env r p ch" by (simp add: submit_available)
    then show ?thesis using v False
      by (auto simp: submit_response_def submit_effects_def publish_status publish_publishes
            split: option.splits send_outcome.splits if_splits)
  qed
qed

text \<open>
  The accepted request: status 202 after one publish. The same request when assertQueue
  rejects: status 500, with a channel at hand.
\<close>

theorem submit_outcomes_witness:
  "status (submit_response env_accepts req_test_prompt producer_connected) = 202 \<and>
   length (publishes (submit_effects env_accepts req_test_prompt producer_connected)) = 1 \<and>
   sendToQueue_outcome env_accepts = SendReturns True \<and>
   status (submit_response env_assert_rejects req_test_prompt producer_connected) = 500 \<and>
   \<not> channel_unavailable producer_connected \<and>
   \<not> assertQueue_resolves env_assert_rejects"
proof -
  have c: "rabbitChannel producer_connected = Some 1" by (simp add: producer_connected_eq)
  have "submit env_accepts req_test_prompt producer_connected =
          publish env_accepts req_test_prompt producer_connected 1"
    using test_prompt_truthy connected_available c by (simp add: submit_available)
  then have a: "status (submit_response env_accepts req_test_prompt producer_connected) = 202"
    by (simp add: submit_response_def publish_status)
       (simp add: env_accepts_def producer_connected_eq)
  have r: "\<not> assertQueue_resolves env_assert_rejects"
    by (simp add: env_assert_rejects_def)
  have "submit env_assert_rejects req_test_prompt producer_connected =
          publish env_assert_rejects req_test_prompt producer_connected 1"
    using test_prompt_truthy connected_available c by (simp add: submit_available)
  then have b: "status (submit_response env_assert_rejects req_test_prompt producer_connected) = 500"
    using r by (simp add: submit_response_def publish_status)
  from submit_outcomes [of env_accepts req_test_prompt producer_connected]
    submit_outcomes [of env_assert_rejects req_test_prompt producer_connected] a b r
  show ?thesis by simp
qed

text \<open>
  The claim as stated fails: when sendToQueue throws, as in the test for status 500, the
  answer is none of accepted, rejected and unavailable.
\<close>

theorem three_outcomes_counterexample:
  "status (submit_response env_send_throws req_test_prompt producer_connected) = 500 \<and>
   body (submit_response env_send_throws req_test_prompt producer_connected) =
     (''error'', ''Failed to publish prompt request due to an internal error.'')"
proof -
  have c: "rabbitChannel producer_connected = Some 1" by (simp add: producer_connected_eq)
  have "submit env_send_throws req_test_prompt producer_connected =
          publish env_send_throws req_test_prompt producer_connected 1"
    using test_prompt_truthy connected_available c by (simp add: submit_available)
  then show ?thesis
    by (simp add: submit_response_def publish_def Let_def env_send_throws_def
          producer_connected_eq internal_error_def)
qed

subsection \<open>Connection attempts in flight\<close>

text \<open>
  C7 fails on the code. In the API process: the first connect fails, the retry timer
  fires and call 1 of connectToRabbitMQ waits for \<^verbatim>\<open>amqp.connect\<close>; a valid request then
  finds \<open>rabbitConnection\<close> null, which line 99 takes for "not already connecting", and
  starts call 2: two connection attempts are in flight. In the worker: when assertQueue
  fails after a connection was made, closing that connection in the catch block runs the
  close handler, which sets a timer, and the catch block then sets a second one.
\<close>

theorem two_attempts_in_flight:
  "p_attempts (api_run [Event (PConnectRejects 0), Event PTimerFires] (fst initializePromptRoutes)) =
     [(1, PAwaitConnect)] \<and>
   p_attempts (api_run [Event (PConnectRejects 0), Event PTimerFires,
                        Submit env_accepts req_test_prompt] (fst initializePromptRoutes)) =
     [(1, PAwaitConnect), (2, PAwaitConnect)] \<and>
   w_timers (fst (w_run [WConnectResolves 0 1, WCreateChannelResolves 0 1, WChannelClose 1,
                         WAssertQueueRejects 0, WConnectionClose 1, WCloseSettles 0 True]
                    worker_started)) = 2"
proof -
  have a: "api_run [Event (PConnectRejects 0), Event PTimerFires] (fst initializePromptRoutes) =
             producer_retrying"
    by (simp add: producer_retrying_def producer_down_def)
  have t: "truthy (promptText req_test_prompt) \<or> truthy (promptId req_test_prompt)"
    by (simp add: test_prompt_truthy)
  have n: "no_connection producer_retrying" by (simp add: no_connection_def producer_retrying_eq)
  have u: "channel_unavailable producer_retrying" by (simp add: channel_unavailable_def n)
  have "submit env_accepts req_test_prompt producer_retrying = unavailable producer_retrying"
    using t u by (rule submit_unavailable)
  then have s: "p_attempts (submit_state env_accepts req_test_prompt producer_retrying) =
                  [(1, PAwaitConnect), (2, PAwaitConnect)]"
    using n by (simp add: submit_state_def unavailable_state connectToRabbitMQ_def
                  producer_retrying_eq)
  have b: "api_run [Event (PConnectRejects 0), Event PTimerFires,
                    Submit env_accepts req_test_prompt] (fst initializePromptRoutes) =
             submit_state env_accepts req_test_prompt producer_retrying"
    by (simp add: producer_retrying_def producer_down_def)
  have w: "w_timers (fst (w_run [WConnectResolves 0 1, WCreateChannelResolves 0 1, WChannelClose 1,
                         WAssertQueueRejects 0, WConnectionClose 1, WCloseSettles 0 True]
                    worker_started)) = 2"
    by (simp add: worker_started_eq set_pc_def settle_def w_catch_def w_catch_connection_def
          w_retry_def)
  show ?thesis by (simp only: a b s w) (simp add: producer_retrying_eq)
qed

subsection \<open>The connection error event\<close>

text \<open>
  C5, as amended. In the API process the error handler of a connection clears
  \<open>rabbitConnection\<close> and \<open>rabbitChannel\<close> and schedules no retry. In the worker the
  error handler of a connection only logs: \<open>connection\<close> and \<open>channel\<close> stay as they
  are and no retry is scheduled; it is the close handler that clears them and sets the
  timer.
\<close>

theorem connection_error_event:
  assumes "c \<in> set (p_handlers p)" and "d \<in> set (conn_handlers w)"
  shows "rabbitConnection (fst (p_step (PConnectionError c) p)) = None \<and>
         rabbitChannel (fst (p_step (PConnectionError c) p)) = None \<and>
         p_timers (fst (p_step (PConnectionError c) p)) = p_timers p \<and>
         p_attempts (fst (p_step (PConnectionError c) p)) = p_attempts p \<and>
         calls_made (snd (p_step (PConnectionError c) p)) = [] \<and>
         fst (w_step (WConnectionError d) w) = w \<and>
         calls_made (snd (w_step (WConnectionError d) w)) = [] \<and>
         connection (fst (w_step (WConnectionClose d) w)) = None \<and>
         channel (fst (w_step (WConnectionClose d) w)) = None \<and>
         w_timers (fst (w_step (WConnectionClose d) w)) = Suc (w_timers w)"
  using assms by (simp add: call_filters)

theorem connection_error_event_witness:
  "1 \<in> set (p_handlers producer_connected) \<and> 1 \<in> set (conn_handlers worker_connected) \<and>
   rabbitConnection (fst (p_step (PConnectionError 1) producer_connected)) = None \<and>
   rabbitChannel (fst (p_step (PConnectionError 1) producer_connected)) = None \<and>
   p_timers (fst (p_step (PConnectionError 1) producer_connected)) = 0 \<and>
   fst (w_step (WConnectionError 1) worker_connected) = worker_connected"
proof -
  have a: "1 \<in> set (p_handlers producer_connected)" by (simp add: producer_connected_eq)
  have b: "1 \<in> set (conn_handlers worker_connected)" by (simp add: worker_connected_eq)
  have t: "p_timers producer_connected = 0" by (simp add: producer_connected_eq)
  from connection_error_event [OF a b] a b t show ?thesis by simp
qed

text \<open>
  The claim as stated fails for the worker: after the error event of its connection the
  connected worker still holds that connection and its channel.
\<close>

theorem worker_error_keeps_handles_counterexample:
  "1 \<in> set (conn_handlers worker_connected) \<and>
   connection (fst (w_step (WConnectionError 1) worker_connected)) = Some 1 \<and>
   channel (fst (w_step (WConnectionError 1) worker_connected)) = Some 1"
  by (simp add: worker_connected_eq)

subsection \<open>The startup guard\<close>

lemma w_step_init: "w_step e worker_init = (worker_init, [])"
  by (cases e) (simp_all add: worker_init_def)

lemma w_run_init: "w_run es worker_init = (worker_init, [])"
  by (induction es) (simp_all add: w_step_init)

text \<open>
  C9. If the provider or the prompt service is null at startup, the module only logs one
  warning; startWorker, if called all the same, logs and returns at its guard. Either way
  nothing but logging is done: no connection attempt, no subscription, no timer, no
  \<^verbatim>\<open>process.exit\<close>. The worker is left with no call in flight, no timer and no handler, so
  that no later event makes it do anything.
\<close>

theorem worker_does_not_start:
  assumes "provider = None \<or> service = None"
  shows "worker_module provider service =
           (worker_init,
            [Log LWarn ''Prompt Agent Worker will not start. LlmProvider (OpenAI) or PromptService is not available.'']) \<and>
         fst (startWorker provider service) = worker_init \<and>
         calls_made (snd (startWorker provider service)) = [] \<and>
         length (snd (startWorker provider service)) = 2 \<and>
         w_run es worker_init = (worker_init, [])"
  using assms by (auto simp: worker_module_def startWorker_def call_filters w_run_init)

theorem worker_does_not_start_witness:
  "worker_module (None :: unit option) (Some ()) =
     (worker_init,
      [Log LWarn ''Prompt Agent Worker will not start. LlmProvider (OpenAI) or PromptService is not available.'']) \<and>
   fst (startWorker (None :: unit option) (Some ())) = worker_init \<and>
   calls_made (snd (startWorker (None :: unit option) (Some ()))) = [] \<and>
   w_run [WTimerFires, WConnectResolves 0 1, WConnectionClose 1] worker_init = (worker_init, [])"
proof -
  have h: "(None :: unit option) = None \<or> Some () = None" by simp
  from worker_does_not_start [OF h, of "[WTimerFires, WConnectResolves 0 1, WConnectionClose 1]"]
  show ?thesis by simp
qed

end
